theory Spec2Isabelle
  imports Main "HOL-Library.Sublist"
begin

section \<open>Pages, errors and the invocation log\<close>

text \<open>
  A page is either a numpy array or a torch tensor (\<open>Union[np.ndarray, torch.Tensor]\<close>).
  Of a page the predictor reads its representation (\<open>isinstance(page, np.ndarray)\<close>),
  its \<open>shape\<close> and its \<open>ndim\<close>; the pixel data is only handed on to the
  collaborators and stays abstract.
\<close>

datatype array_kind = NdArray | Tensor

record 'px page =
  kind :: array_kind
  shape :: "nat list"
  pixels :: 'px

text \<open>\<open>page.ndim\<close>: the number of axes, that is the length of the shape tuple.\<close>

definition ndim :: "'px page \<Rightarrow> nat" where
  "ndim p = length (shape p)"

text \<open>
  Exceptions are values. \<open>ValueError\<close> carries its message; \<open>AssemblyError\<close> is the
  specification's name for a broken flat/per-page invariant; \<open>ExternalError\<close> stands
  for whatever a collaborator raises.
\<close>

datatype error = ValueError string | AssemblyError | ExternalError string

text \<open>
  \<open>forward\<close> has no state of its own; what it does beyond returning a value is to
  invoke its collaborators. Each invocation is logged with the arguments it received, in
  the order of the calls.
\<close>

datatype ('px, 'kw, 'reg, 'crop, 'wp) event =
    is_DetCall: DetCall "'px page list" 'kw
  | is_PrepareCrops: PrepareCrops "'px page list" "'reg list list" bool bool
  | is_RecoCall: RecoCall "'crop list" 'kw
  | is_ProcessPredictions: ProcessPredictions "'reg list list" "'wp list" bool
  | is_BuildCall: BuildCall "'reg list list" "'wp list list" "nat list list"

type_synonym ('ev, 'a) run = "'ev list \<times> (error + 'a)"

definition ret :: "'a \<Rightarrow> ('ev, 'a) run" where
  "ret x = ([], Inr x)"

definition throw :: "error \<Rightarrow> ('ev, 'a) run" where
  "throw e = ([], Inl e)"

text \<open>\<open>invoke ev r\<close>: a call that is logged as \<open>ev\<close> and whose outcome is \<open>r\<close>.\<close>

definition invoke :: "'ev \<Rightarrow> error + 'a \<Rightarrow> ('ev, 'a) run" where
  "invoke ev r = ([ev], r)"

text \<open>Sequencing: an exception ends the run, keeping the log written so far.\<close>

definition andthen :: "('ev, 'a) run \<Rightarrow> ('a \<Rightarrow> ('ev, 'b) run) \<Rightarrow> ('ev, 'b) run" where
  "andthen m f =
     (case m of
        (t, Inl e) \<Rightarrow> (t, Inl e)
      | (t, Inr x) \<Rightarrow> (case f x of (t', r) \<Rightarrow> (t @ t', r)))"

section \<open>The predictor object\<close>

text \<open>
  Modelled from the spec: the class \<open>DocumentBuilder\<close> (\<open>doctr.models.builder\<close>) is
  not part of the sources at hand. Its constructor is called with the keyword
  \<open>export_as_straight_boxes\<close> and \<open>forward\<close> reads the attribute of the same name;
  the specification fixes the flag for the lifetime of the instance.
\<close>

record DocumentBuilder =
  export_as_straight_boxes :: bool

definition DocumentBuilder_init :: "bool \<Rightarrow> DocumentBuilder" where
  "DocumentBuilder_init export_flag = \<lparr>export_as_straight_boxes = export_flag\<rparr>"

text \<open>
  The attributes set by \<open>OCRPredictor.__init__\<close>. The two predictors are callables that
  take a batch and the keyword arguments of the call and either return or raise.
\<close>

record ('px, 'kw, 'reg, 'crop, 'wp) OCRPredictor =
  det_predictor :: "'px page list \<Rightarrow> 'kw \<Rightarrow> error + 'reg list list"
  reco_predictor :: "'crop list \<Rightarrow> 'kw \<Rightarrow> error + 'wp list"
  doc_builder :: DocumentBuilder
  assume_straight_pages :: bool

text \<open>
  \<open>__init__(det_predictor, reco_predictor, assume_straight_pages=True,
  export_as_straight_boxes=False)\<close>. \<open>nn.Module.eval()\<close> returns the module itself.
\<close>

definition OCRPredictor_init ::
  "('px page list \<Rightarrow> 'kw \<Rightarrow> error + 'reg list list) \<Rightarrow>
   ('crop list \<Rightarrow> 'kw \<Rightarrow> error + 'wp list) \<Rightarrow> bool \<Rightarrow> bool \<Rightarrow>
   ('px, 'kw, 'reg, 'crop, 'wp) OCRPredictor" where
  "OCRPredictor_init det reco straight_pages export_flag =
     \<lparr>det_predictor = det,
      reco_predictor = reco,
      doc_builder = DocumentBuilder_init export_flag,
      assume_straight_pages = straight_pages\<rparr>"

text \<open>
  The methods \<open>forward\<close> calls whose code is not in the sources at hand:
  \<open>_prepare_crops\<close> and \<open>_process_predictions\<close> (inherited from \<open>_OCRPredictor\<close>) and
  \<open>DocumentBuilder.__call__\<close>. \<open>forward\<close> takes them as a parameter. Each is a
  function of its arguments that returns or raises; none is handed a predictor, so the
  only invocations of the predictors are those \<open>forward\<close> makes itself.
\<close>

record ('px, 'reg, 'crop, 'wp, 'doc) methods =
  prepare_crops ::
    "'px page list \<Rightarrow> 'reg list list \<Rightarrow> bool \<Rightarrow> bool \<Rightarrow> error + ('crop list list \<times> 'reg list list)"
  process_predictions ::
    "'reg list list \<Rightarrow> 'wp list \<Rightarrow> bool \<Rightarrow> error + ('reg list list \<times> 'wp list list)"
  builder_call ::
    "DocumentBuilder \<Rightarrow> 'reg list list \<Rightarrow> 'wp list list \<Rightarrow> nat list list \<Rightarrow> error + 'doc"

section \<open>\<open>OCRPredictor.forward\<close>\<close>

text \<open>
  The body of \<open>forward(self, pages, **kwargs)\<close>, statement by statement. The decorator
  \<open>torch.no_grad()\<close> switches off gradient tracking and changes no value. An exception
  raised by a collaborator is not caught: it ends the call.
\<close>

definition shape_error :: string where
  "shape_error = ''incorrect input shape: all pages are expected to be multi-channel 2D images.''"

text \<open>
  \<open>len(pages) == 0 or isinstance(pages[0], np.ndarray)\<close>: \<open>or\<close> does not evaluate
  \<open>pages[0]\<close> on the empty list.
\<close>

definition channels_last_of :: "'px page list \<Rightarrow> bool" where
  "channels_last_of pages =
     (case pages of [] \<Rightarrow> True | first # _ \<Rightarrow> kind first = NdArray)"

text \<open>
  \<open>page.shape[:2] if channels_last else page.shape[-2:]\<close>. A slice never raises: it
  returns what there is when the tuple is shorter.
\<close>

definition page_shape :: "bool \<Rightarrow> 'px page \<Rightarrow> nat list" where
  "page_shape channels_last p =
     (if channels_last then take 2 (shape p) else drop (length (shape p) - 2) (shape p))"

definition forward ::
  "('px, 'reg, 'crop, 'wp, 'doc) methods \<Rightarrow> ('px, 'kw, 'reg, 'crop, 'wp) OCRPredictor \<Rightarrow>
   'px page list \<Rightarrow> 'kw \<Rightarrow> (('px, 'kw, 'reg, 'crop, 'wp) event, 'doc) run" where
  "forward M self pages kwargs =
     (if list_ex (\<lambda>p. ndim p \<noteq> 3) pages then throw (ValueError shape_error)
      else
        andthen (invoke (DetCall pages kwargs) (det_predictor self pages kwargs))
          (\<lambda>loc_preds.
        let channels_last = channels_last_of pages in
        andthen (invoke (PrepareCrops pages loc_preds channels_last (assume_straight_pages self))
                   (prepare_crops M pages loc_preds channels_last (assume_straight_pages self)))
          (\<lambda>(crops, loc_preds).
        andthen (invoke (RecoCall (concat crops) kwargs) (reco_predictor self (concat crops) kwargs))
          (\<lambda>word_preds.
        andthen (invoke (ProcessPredictions loc_preds word_preds
                           (\<not> export_as_straight_boxes (doc_builder self)))
                   (process_predictions M loc_preds word_preds
                           (\<not> export_as_straight_boxes (doc_builder self))))
          (\<lambda>(boxes, text_preds).
        andthen (invoke (BuildCall boxes text_preds (map (page_shape channels_last) pages))
                   (builder_call M (doc_builder self) boxes text_preds
                      (map (page_shape channels_last) pages)))
          ret)))))"

section \<open>The stages \<open>forward\<close> delegates to\<close>

text \<open>
  The geometry of regions and crops is numeric image processing; its kernels are
  parameters of the stages below. A region is a value of type \<open>'reg\<close>, a crop one of
  type \<open>'crop\<close>, a recognition result (text and confidence) one of type \<open>'wp\<close>.
\<close>

datatype ('reg, 'wp) Word = Word (geometry: 'reg) (prediction: 'wp)

datatype ('reg, 'wp) Line = Line (line_words: "('reg, 'wp) Word list")

datatype ('reg, 'wp) Block = Block (block_lines: "('reg, 'wp) Line list")

record ('reg, 'wp) Page =
  blocks :: "('reg, 'wp) Block list"
  dimensions :: "nat list"

record ('reg, 'wp) Document =
  doc_pages :: "('reg, 'wp) Page list"

record ('px, 'reg, 'crop, 'wp) kernels =
  extract_crop :: "bool \<Rightarrow> bool \<Rightarrow> 'px page \<Rightarrow> 'reg \<Rightarrow> 'crop"
  degenerate :: "bool \<Rightarrow> 'px page \<Rightarrow> 'reg \<Rightarrow> bool"
  rederive :: "'px page \<Rightarrow> 'reg \<Rightarrow> 'reg"
  rotate_back :: "'reg \<Rightarrow> 'reg"
  straighten :: "'reg \<Rightarrow> 'reg"
  cluster :: "('reg, 'wp) Word list \<Rightarrow> ('reg, 'wp) Block list"

text \<open>
  Modelled from the spec: \<open>_OCRPredictor._prepare_crops\<close> (the CropExtractor of
  section 4.1), whose code is not in the sources at hand.
  \<open>extract(pages, loc_preds, channels_last, assume_straight_pages)\<close> returns the crops
  grouped per page and the adjusted localization predictions. Pages and predictions are
  paired by position. Degenerate regions (zero width or height after denormalization;
  \<open>degenerate K channels_last page region\<close>) are dropped from crops and boxes
  together; the order of the regions of a page is kept. In straight mode the boxes are
  returned as they are, in rotated mode each is re-derived after extraction
  (\<open>rederive\<close>). The spec states the input constraint
  \<open>len(pages) == len(loc_preds)\<close> and no failure of this stage.
\<close>

definition kept_regions ::
  "('px, 'reg, 'crop, 'wp) kernels \<Rightarrow> bool \<Rightarrow> 'px page \<Rightarrow> 'reg list \<Rightarrow> 'reg list" where
  "kept_regions K channels_last p regions =
     filter (\<lambda>r. \<not> degenerate K channels_last p r) regions"

definition CropExtractor_extract ::
  "('px, 'reg, 'crop, 'wp) kernels \<Rightarrow> 'px page list \<Rightarrow> 'reg list list \<Rightarrow> bool \<Rightarrow> bool \<Rightarrow>
   error + ('crop list list \<times> 'reg list list)" where
  "CropExtractor_extract K pages loc_preds channels_last straight =
     Inr (map (\<lambda>(p, regions).
                 map (extract_crop K straight channels_last p)
                     (kept_regions K channels_last p regions))
              (zip pages loc_preds),
          map (\<lambda>(p, regions).
                 if straight then kept_regions K channels_last p regions
                 else map (rederive K p) (kept_regions K channels_last p regions))
              (zip pages loc_preds))"

text \<open>
  Modelled from the spec: \<open>_OCRPredictor._process_predictions\<close> (the
  PredictionAssembler of section 4.2), whose code is not in the sources at hand.
  It walks the per-page region counts and slices the flat recognition results into
  contiguous per-page groups, in order; it fails with \<open>AssemblyError\<close> when the flat
  length is not the sum of the per-page counts. With \<open>allow_rotated_boxes\<close> the
  rotation-aware post-processing (\<open>rotate_back\<close>) is applied to the boxes.
\<close>

fun regroup :: "nat list \<Rightarrow> 'a list \<Rightarrow> 'a list list" where
  "regroup [] flat = []"
| "regroup (n # counts) flat = take n flat # regroup counts (drop n flat)"

definition assemble ::
  "('px, 'reg, 'crop, 'wp) kernels \<Rightarrow> 'reg list list \<Rightarrow> 'wp list \<Rightarrow> bool \<Rightarrow>
   error + ('reg list list \<times> 'wp list list)" where
  "assemble K loc_preds word_preds allow_rotated_boxes =
     (if length word_preds \<noteq> sum_list (map length loc_preds) then Inl AssemblyError
      else Inr (if allow_rotated_boxes then map (map (rotate_back K)) loc_preds else loc_preds,
                regroup (map length loc_preds) word_preds))"

text \<open>
  Modelled from the spec: \<open>DocumentBuilder.__call__\<close> (section 4.3), whose code is not
  in the sources at hand. For each page it pairs each box with its recognition result
  and clusters the words into lines and blocks (\<open>cluster\<close>, a deterministic policy);
  with \<open>export_as_straight_boxes\<close> each box is first replaced by its axis-aligned
  bounding rectangle (\<open>straighten\<close>). The page dimensions are stored verbatim from
  \<open>page_shapes\<close>. The three sequences are paired by position.
\<close>

definition build_page ::
  "('px, 'reg, 'crop, 'wp) kernels \<Rightarrow> DocumentBuilder \<Rightarrow>
   'reg list \<times> 'wp list \<times> nat list \<Rightarrow> ('reg, 'wp) Page" where
  "build_page K builder = (\<lambda>(page_boxes, page_texts, page_dims).
     \<lparr>blocks = cluster K
         (map (\<lambda>(b, w). Word b w)
            (zip (if export_as_straight_boxes builder then map (straighten K) page_boxes
                  else page_boxes)
                 page_texts)),
      dimensions = page_dims\<rparr>)"

definition build ::
  "('px, 'reg, 'crop, 'wp) kernels \<Rightarrow> DocumentBuilder \<Rightarrow> 'reg list list \<Rightarrow> 'wp list list \<Rightarrow>
   nat list list \<Rightarrow> error + ('reg, 'wp) Document" where
  "build K builder boxes text_preds page_shapes =
     Inr \<lparr>doc_pages = map (build_page K builder) (zip boxes (zip text_preds page_shapes))\<rparr>"

definition spec_methods ::
  "('px, 'reg, 'crop, 'wp) kernels \<Rightarrow> ('px, 'reg, 'crop, 'wp, ('reg, 'wp) Document) methods" where
  "spec_methods K =
     \<lparr>prepare_crops = CropExtractor_extract K,
      process_predictions = assemble K,
      builder_call = build K\<rparr>"

section \<open>Test doubles\<close>

text \<open>
  Deterministic stand-ins for the collaborators, on which the theorems below are run: a
  region is a number and region \<open>0\<close> is degenerate; the crop of region \<open>r\<close> on a page
  is the pair of the page's shape and \<open>r\<close>; the detector finds the regions
  \<open>1, 0, 2\<close> on every page; the recognizer reads every crop as the word \<open>''w''\<close>
  followed by as many \<open>''!''\<close> as the number of the region.
\<close>

definition stub_kernels :: "(unit, nat, nat list \<times> nat, string) kernels" where
  "stub_kernels =
     \<lparr>extract_crop = (\<lambda>straight channels_last p r. (shape p, r)),
      degenerate = (\<lambda>channels_last p r. r = 0),
      rederive = (\<lambda>p r. r),
      rotate_back = (\<lambda>r. r),
      straighten = (\<lambda>r. r),
      cluster = (\<lambda>ws. [Block [Line ws]])\<rparr>"

definition stub_det :: "unit page list \<Rightarrow> unit \<Rightarrow> error + nat list list" where
  "stub_det pages kwargs = Inr (map (\<lambda>p. [1, 0, 2]) pages)"

definition stub_reco :: "(nat list \<times> nat) list \<Rightarrow> unit \<Rightarrow> error + string list" where
  "stub_reco crops kwargs = Inr (map (\<lambda>(s, r). CHR ''w'' # replicate r CHR ''!'') crops)"

definition stub_predictor :: "(unit, unit, nat, nat list \<times> nat, string) OCRPredictor" where
  "stub_predictor = OCRPredictor_init stub_det stub_reco True False"

definition array_page :: "nat list \<Rightarrow> unit page" where
  "array_page s = \<lparr>kind = NdArray, shape = s, pixels = ()\<rparr>"

definition tensor_page :: "nat list \<Rightarrow> unit page" where
  "tensor_page s = \<lparr>kind = Tensor, shape = s, pixels = ()\<rparr>"

section \<open>The vocabulary table (\<open>doctr/datasets/vocabs.py\<close>)\<close>

text \<open>
  A Python \<open>str\<close> is a sequence of Unicode code points; \<open>+\<close> on strings is
  concatenation. The characters of the source's literals are given by their code points,
  in the order of the literal.
\<close>

type_synonym pystr = "nat list"

type_synonym vocabs = "string \<Rightarrow> pystr option"

text \<open>
  The constants of the Python standard library module \<open>string\<close> that the table uses,
  as ranges of code points: \<open>string.digits\<close> is \<open>0\<close> to \<open>9\<close> (48 to 57),
  \<open>string.ascii_letters\<close> is \<open>a\<close> to \<open>z\<close> (97 to 122) followed by \<open>A\<close> to
  \<open>Z\<close> (65 to 90), and \<open>string.punctuation\<close> is the 32 ASCII punctuation characters
  in code point order (33 to 47, 58 to 64, 91 to 96, 123 to 126).
\<close>

definition string_digits :: pystr where
  "string_digits = [48..<58]"

definition string_ascii_letters :: pystr where
  "string_ascii_letters = [97..<123] @ [65..<91]"

definition string_punctuation :: pystr where
  "string_punctuation = [33..<48] @ [58..<65] @ [91..<97] @ [123..<127]"

text \<open>The dictionary display of lines 12 to 23.\<close>

definition VOCABS_display :: vocabs where
  "VOCABS_display =
     [
      ''digits'' \<mapsto> string_digits,
      ''ascii_letters'' \<mapsto> string_ascii_letters,
      ''punctuation'' \<mapsto> string_punctuation,
      ''currency'' \<mapsto>
        [163, 8364, 165, 162, 3647],
      ''ancient_greek'' \<mapsto>
        [945, 946, 947, 948, 949, 950, 951, 952, 953, 954, 955, 956, 957, 958, 959, 960,
         961, 963, 964, 965, 966, 967, 968, 969, 913, 914, 915, 916, 917, 918, 919, 920,
         921, 922, 923, 924, 925, 926, 927, 928, 929, 931, 932, 933, 934, 935, 936, 937],
      ''arabic_letters'' \<mapsto>
        [1569, 1570, 1571, 1572, 1573, 1574, 1575, 1576, 1577, 1578, 1579, 1580, 1581, 1582,
         1583, 1584, 1585, 1586, 1587, 1588, 1589, 1590, 1591, 1592, 1593, 1594, 1600, 1601,
         1602, 1603, 1604, 1605, 1606, 1607, 1608, 1609, 1610],
      ''persian_letters'' \<mapsto>
        [1662, 1670, 1698, 1700, 1711],
      ''hindi_digits'' \<mapsto>
        [1632, 1633, 1634, 1635, 1636, 1637, 1638, 1639, 1640, 1641],
      ''arabic_diacritics'' \<mapsto>
        [1611, 1612, 1613, 1614, 1615, 1616, 1617, 1618],
      ''arabic_punctuation'' \<mapsto>
        [1567, 1563, 171, 187, 8212]
     ]"

text \<open>
  The right-hand sides of lines 25 to 33 are sums of table entries (\<open>VOCABS[key]\<close>,
  which raises \<open>KeyError\<close> on a missing key) and string literals.
\<close>

datatype operand = Item string | Lit pystr

fun eval_sum :: "vocabs \<Rightarrow> operand list \<Rightarrow> pystr option" where
  "eval_sum V [] = Some []"
| "eval_sum V (Item k # rest) =
     (case V k of
        None \<Rightarrow> None
      | Some s \<Rightarrow> (case eval_sum V rest of None \<Rightarrow> None | Some t \<Rightarrow> Some (s @ t)))"
| "eval_sum V (Lit s # rest) =
     (case eval_sum V rest of None \<Rightarrow> None | Some t \<Rightarrow> Some (s @ t))"

text \<open>\<open>VOCABS[key] = expression\<close>, one statement after the other.\<close>

fun run_assignments :: "vocabs \<Rightarrow> (string \<times> operand list) list \<Rightarrow> vocabs option" where
  "run_assignments V [] = Some V"
| "run_assignments V ((k, e) # rest) =
     (case eval_sum V e of
        None \<Rightarrow> None
      | Some s \<Rightarrow> run_assignments (V(k \<mapsto> s)) rest)"

definition assignments :: "(string \<times> operand list) list" where
  "assignments =
     [
      (''latin'',
         [Item ''digits'',
          Item ''ascii_letters'',
          Item ''punctuation'']),
      (''english'',
         [Item ''latin'',
          Lit [176],
          Item ''currency'']),
      (''legacy_french'',
         [Item ''latin'',
          Lit [176],
          Lit [224, 226, 233, 232, 234, 235, 238, 239, 244, 249, 251, 231, 192, 194, 201, 200, 203, 206,
               207, 212, 217, 219, 199],
          Item ''currency'']),
      (''french'',
         [Item ''english'',
          Lit [224, 226, 233, 232, 234, 235, 238, 239, 244, 249, 251, 252, 231, 192, 194, 201, 200, 202,
               203, 206, 207, 212, 217, 219, 220, 199]]),
      (''portuguese'',
         [Item ''english'',
          Lit [225, 224, 226, 227, 233, 234, 235, 237, 239, 243, 244, 245, 250, 252, 231, 193, 192, 194,
               195, 201, 203, 205, 207, 211, 212, 213, 218, 220, 199],
          Lit [161, 191]]),
      (''spanish'',
         [Item ''english'',
          Lit [225, 233, 237, 243, 250, 252, 241, 193, 201, 205, 211, 218, 220, 209],
          Lit [161, 191]]),
      (''german'',
         [Item ''english'',
          Lit [228, 246, 252, 223, 196, 214, 220, 7838]]),
      (''arabic'',
         [Item ''digits'',
          Item ''hindi_digits'',
          Item ''arabic_letters'',
          Item ''persian_letters'',
          Item ''arabic_diacritics'',
          Item ''arabic_punctuation'',
          Item ''punctuation''])
     ]"

text \<open>The table as the module leaves it; \<open>None\<close> if a statement raised.\<close>

definition VOCABS :: "vocabs option" where
  "VOCABS = run_assignments VOCABS_display assignments"


section \<open>Properties of \<open>forward\<close>\<close>

subsection \<open>The shape of a run\<close>

lemmas run_defs = andthen_def invoke_def ret_def throw_def

lemma forward_invalid:
  "list_ex (\<lambda>p. ndim p \<noteq> 3) pages \<Longrightarrow>
   forward M self pages kwargs = ([], Inl (ValueError shape_error))"
  by (simp add: forward_def throw_def)



lemma forward_runs_through:
  assumes "\<not> list_ex (\<lambda>p. ndim p \<noteq> 3) pages"
    and "det_predictor self pages kwargs = Inr loc"
    and "prepare_crops M pages loc (channels_last_of pages) (assume_straight_pages self)
           = Inr (crops, loc')"
    and "reco_predictor self (concat crops) kwargs = Inr wps"
    and "process_predictions M loc' wps (\<not> export_as_straight_boxes (doc_builder self))
           = Inr (boxes, tps)"
    and "builder_call M (doc_builder self) boxes tps
           (map (page_shape (channels_last_of pages)) pages) = Inr doc"
  shows "forward M self pages kwargs =
           ([DetCall pages kwargs,
             PrepareCrops pages loc (channels_last_of pages) (assume_straight_pages self),
             RecoCall (concat crops) kwargs,
             ProcessPredictions loc' wps (\<not> export_as_straight_boxes (doc_builder self)),
             BuildCall boxes tps (map (page_shape (channels_last_of pages)) pages)],
            Inr doc)"
  using assms by (simp add: forward_def run_defs Let_def)







lemma length_regroup: "length (regroup counts flat) = length counts"
  by (induction counts arbitrary: flat) simp_all




lemma length_concat_sum: "length (concat xss) = sum_list (map length xss)"
  by (induction xss) simp_all

lemma extract_lengths:
  assumes "CropExtractor_extract K pages loc cl sp = Inr (crops, loc')"
  shows "map length crops = map length loc'" and "length loc' = min (length pages) (length loc)"
  using assms
  by (auto simp: CropExtractor_extract_def split: if_splits)

lemma dimensions_build_page:
  "dimensions (build_page K b (bx, tp, shp)) = shp"
  by (simp add: build_page_def)

lemma map_dimensions_build:
  assumes "length bxs = length shapes" and "length tps = length shapes"
  shows "map (\<lambda>x. dimensions (build_page K b x)) (zip bxs (zip tps shapes)) = shapes"
  using assms
proof (induction shapes arbitrary: bxs tps)
  case Nil
  then show ?case by simp
next
  case (Cons s shapes)
  then obtain bx bxs' tp tps' where "bxs = bx # bxs'" "tps = tp # tps'"
    by (metis length_Suc_conv)
  with Cons show ?case by (simp add: dimensions_build_page)
qed

subsection \<open>Validation\<close>

text \<open>
  C1. When some page of the batch does not have exactly 3 dimensions, wherever it stands
  in the batch, \<open>forward\<close> raises the \<open>ValueError\<close> whose message says that all pages
  are expected to be multi-channel 2D images, and the log of invocations is empty:
  neither the detection predictor nor the recognition predictor (nor any other stage)
  has been called.
\<close>

theorem malformed_page_rejected_before_any_call:
  assumes "ndim bad \<noteq> 3"
  shows "forward M self (before @ bad # after) kwargs =
           ([], Inl (ValueError
              ''incorrect input shape: all pages are expected to be multi-channel 2D images.''))"
proof -
  have "list_ex (\<lambda>p. ndim p \<noteq> 3) (before @ bad # after)"
    using assms by (simp add: list_ex_iff)
  then show ?thesis
    by (simp add: forward_invalid shape_error_def)
qed

theorem malformed_page_rejected_witness:
  "ndim (array_page [1, 256, 512, 3]) \<noteq> 3 \<and>
   forward (spec_methods stub_kernels) stub_predictor
     ([array_page [4, 5, 3]] @ array_page [1, 256, 512, 3] # [tensor_page [3, 4, 5]]) () =
     ([], Inl (ValueError
        ''incorrect input shape: all pages are expected to be multi-channel 2D images.''))"
proof -
  have h: "ndim (array_page [1, 256, 512, 3]) \<noteq> 3"
    by (simp add: ndim_def array_page_def)
  show ?thesis
    using h malformed_page_rejected_before_any_call
      [OF h, where before = "[array_page [4, 5, 3]]" and after = "[tensor_page [3, 4, 5]]"]
    by simp
qed



subsection \<open>Channel ordering and page shapes\<close>






subsection \<open>The assembly step\<close>



subsection \<open>Invocation of the external predictors\<close>




subsection \<open>The document returned\<close>

lemma assemble_succeeds:
  assumes "length wps = sum_list (map length loc')"
  shows "\<exists>boxes. assemble K loc' wps allow_rotated = Inr (boxes, regroup (map length loc') wps) \<and>
                 length boxes = length loc'"
  using assms by (simp add: assemble_def)

lemma spec_methods_simps:
  "prepare_crops (spec_methods K) = CropExtractor_extract K"
  "process_predictions (spec_methods K) = assemble K"
  "builder_call (spec_methods K) = build K"
  by (simp_all add: spec_methods_def)

text \<open>
  C2. For a valid batch, a detection predictor that returns one localization prediction
  per page and a recognition predictor that returns one result per crop, \<open>forward\<close>
  returns a document that has as many pages as the batch, and the dimensions stored in
  each page are the two axes taken from the shape of the corresponding input page.
\<close>

theorem document_has_one_page_per_input_page:
  assumes valid: "\<forall>p \<in> set pages. ndim p = 3"
    and det: "det_predictor self pages kwargs = Inr loc"
    and det_len: "length loc = length pages"
    and reco: "\<forall>crops. \<exists>wps. reco_predictor self crops kwargs = Inr wps \<and>
                              length wps = length crops"
  shows "\<exists>t doc. forward (spec_methods K) self pages kwargs = (t, Inr doc) \<and>
           length (doc_pages doc) = length pages \<and>
           map dimensions (doc_pages doc) = map (page_shape (channels_last_of pages)) pages"
proof -
  let ?cl = "channels_last_of pages"
  let ?sp = "assume_straight_pages self"
  let ?shapes = "map (page_shape ?cl) pages"
  have ok: "\<not> list_ex (\<lambda>p. ndim p \<noteq> 3) pages"
    using valid by (simp add: list_ex_iff)
  obtain crops loc' where
    ext: "CropExtractor_extract K pages loc ?cl ?sp = Inr (crops, loc')"
    by (simp add: CropExtractor_extract_def)
  have counts: "map length crops = map length loc'" and len_loc': "length loc' = length pages"
    using extract_lengths [OF ext] det_len by simp_all
  obtain wps where
    rec: "reco_predictor self (concat crops) kwargs = Inr wps" and
    len_wps: "length wps = length (concat crops)"
    using reco by blast
  have "length wps = sum_list (map length loc')"
    using len_wps counts by (simp add: length_concat_sum)
  from assemble_succeeds [OF this]
  obtain boxes where
    asm: "assemble K loc' wps (\<not> export_as_straight_boxes (doc_builder self))
            = Inr (boxes, regroup (map length loc') wps)" and
    len_boxes: "length boxes = length loc'"
    by blast
  let ?tps = "regroup (map length loc') wps"
  let ?doc = "\<lparr>doc_pages = map (build_page K (doc_builder self))
                               (zip boxes (zip ?tps ?shapes))\<rparr>"
  have bld: "build K (doc_builder self) boxes ?tps ?shapes = Inr ?doc"
    by (simp add: build_def)
  have run: "forward (spec_methods K) self pages kwargs =
           ([DetCall pages kwargs,
             PrepareCrops pages loc ?cl ?sp,
             RecoCall (concat crops) kwargs,
             ProcessPredictions loc' wps (\<not> export_as_straight_boxes (doc_builder self)),
             BuildCall boxes ?tps ?shapes],
            Inr ?doc)"
    by (rule forward_runs_through [OF ok det])
       (simp_all only: spec_methods_simps ext rec asm bld)
  have lb: "length boxes = length ?shapes" and lt: "length ?tps = length ?shapes"
    using len_boxes len_loc' by (simp_all add: length_regroup)
  have "length (doc_pages ?doc) = length pages"
    using lb lt by simp
  moreover have "map dimensions (doc_pages ?doc) = ?shapes"
    using map_dimensions_build [OF lb lt, of K "doc_builder self"] by (simp add: comp_def)
  ultimately show ?thesis
    using run by blast
qed

lemma stub_reco_contract:
  "\<forall>crops. \<exists>wps. reco_predictor stub_predictor crops () = Inr wps \<and> length wps = length crops"
  by (simp add: stub_predictor_def OCRPredictor_init_def stub_reco_def)

theorem document_has_one_page_per_input_page_witness:
  "list_all (\<lambda>p. ndim p = 3) [tensor_page [3, 4, 5], tensor_page [3, 6, 7]] \<and>
   det_predictor stub_predictor [tensor_page [3, 4, 5], tensor_page [3, 6, 7]] ()
     = Inr [[1, 0, 2], [1, 0, 2]] \<and>
   length [[1, 0, 2], [1, 0, 2::nat]] = length [tensor_page [3, 4, 5], tensor_page [3, 6, 7]] \<and>
   (\<forall>crops. \<exists>wps. reco_predictor stub_predictor crops () = Inr wps \<and>
                   length wps = length crops) \<and>
   (\<exists>t doc. forward (spec_methods stub_kernels) stub_predictor
               [tensor_page [3, 4, 5], tensor_page [3, 6, 7]] () = (t, Inr doc) \<and>
            length (doc_pages doc) = 2 \<and>
            map dimensions (doc_pages doc) = [[4, 5], [6, 7]])"
proof -
  let ?pages = "[tensor_page [3, 4, 5], tensor_page [3, 6, 7]]"
  have valid: "\<forall>p \<in> set ?pages. ndim p = 3"
    by (simp add: ndim_def tensor_page_def)
  have det: "det_predictor stub_predictor ?pages () = Inr [[1, 0, 2], [1, 0, 2]]"
    by (simp add: stub_predictor_def OCRPredictor_init_def stub_det_def)
  have det_len: "length [[1, 0, 2], [1, 0, 2::nat]] = length ?pages"
    by simp
  have shapes: "map (page_shape (channels_last_of ?pages)) ?pages = [[4, 5], [6, 7]]"
    by (simp add: channels_last_of_def page_shape_def tensor_page_def)
  have valid': "list_all (\<lambda>p. ndim p = 3) ?pages"
    using valid by (simp add: list_all_iff)
  have "\<exists>t doc. forward (spec_methods stub_kernels) stub_predictor ?pages () = (t, Inr doc) \<and>
           length (doc_pages doc) = length ?pages \<and>
           map dimensions (doc_pages doc) = map (page_shape (channels_last_of ?pages)) ?pages"
    by (rule document_has_one_page_per_input_page [OF valid det det_len stub_reco_contract])
  then have returned:
    "\<exists>t doc. forward (spec_methods stub_kernels) stub_predictor ?pages () = (t, Inr doc) \<and>
           length (doc_pages doc) = 2 \<and>
           map dimensions (doc_pages doc) = [[4, 5], [6, 7]]"
    unfolding shapes by (simp add: numeral_2_eq_2)
  show ?thesis
    using valid' det det_len stub_reco_contract returned by (intro conjI)
qed

text \<open>
  C7. On the empty batch, with a detection predictor that returns no prediction for no
  page and a recognition predictor that returns no result for no crop, \<open>forward\<close>
  passes validation and returns a document with zero pages. The assembly step is
  invoked with no regions and no recognition results, and the document builder with
  empty boxes, texts and page shapes.
\<close>

theorem empty_batch_yields_empty_document:
  assumes "det_predictor self [] kwargs = Inr []"
    and "reco_predictor self [] kwargs = Inr []"
  shows "forward (spec_methods K) self [] kwargs =
           ([DetCall [] kwargs,
             PrepareCrops [] [] True (assume_straight_pages self),
             RecoCall [] kwargs,
             ProcessPredictions [] [] (\<not> export_as_straight_boxes (doc_builder self)),
             BuildCall [] [] []],
            Inr \<lparr>doc_pages = []\<rparr>)"
  using assms
  by (simp add: forward_def run_defs spec_methods_def CropExtractor_extract_def assemble_def
      build_def channels_last_of_def)

theorem empty_batch_witness:
  "det_predictor stub_predictor [] () = Inr [] \<and>
   reco_predictor stub_predictor [] () = Inr [] \<and>
   forward (spec_methods stub_kernels) stub_predictor [] () =
     ([DetCall [] (), PrepareCrops [] [] True True, RecoCall [] (),
       ProcessPredictions [] [] True, BuildCall [] [] []],
      Inr \<lparr>doc_pages = []\<rparr>)"
proof -
  have det: "det_predictor stub_predictor [] () = Inr []"
    by (simp add: stub_predictor_def OCRPredictor_init_def stub_det_def)
  have rec: "reco_predictor stub_predictor [] () = Inr []"
    by (simp add: stub_predictor_def OCRPredictor_init_def stub_reco_def)
  show ?thesis
    using empty_batch_yields_empty_document [OF det rec, of stub_kernels] det rec
    by (simp add: stub_predictor_def OCRPredictor_init_def DocumentBuilder_init_def)
qed


section \<open>Properties of the vocabulary table\<close>

lemma VOCABS_lookups:
  "\<exists>V. VOCABS = Some V \<and>
     V ''digits'' = Some string_digits \<and>
     V ''ascii_letters'' = Some string_ascii_letters \<and>
     V ''punctuation'' = Some string_punctuation \<and>
     V ''latin'' = Some (string_digits @ string_ascii_letters @ string_punctuation) \<and>
     V ''english'' = Some ((string_digits @ string_ascii_letters @ string_punctuation) @
        [176] @ [163, 8364, 165, 162, 3647]) \<and>
     V ''french'' = Some (((string_digits @ string_ascii_letters @ string_punctuation) @
        [176] @ [163, 8364, 165, 162, 3647]) @
        [224, 226, 233, 232, 234, 235, 238, 239, 244, 249, 251, 252, 231, 192, 194, 201, 200,
         202, 203, 206, 207, 212, 217, 219, 220, 199]) \<and>
     V ''portuguese'' = Some (((string_digits @ string_ascii_letters @ string_punctuation) @
        [176] @ [163, 8364, 165, 162, 3647]) @
        [225, 224, 226, 227, 233, 234, 235, 237, 239, 243, 244, 245, 250, 252, 231, 193, 192,
         194, 195, 201, 203, 205, 207, 211, 212, 213, 218, 220, 199] @ [161, 191]) \<and>
     V ''spanish'' = Some (((string_digits @ string_ascii_letters @ string_punctuation) @
        [176] @ [163, 8364, 165, 162, 3647]) @
        [225, 233, 237, 243, 250, 252, 241, 193, 201, 205, 211, 218, 220, 209] @ [161, 191]) \<and>
     V ''german'' = Some (((string_digits @ string_ascii_letters @ string_punctuation) @
        [176] @ [163, 8364, 165, 162, 3647]) @
        [228, 246, 252, 223, 196, 214, 220, 7838])"
  by (simp add: VOCABS_def assignments_def VOCABS_display_def)

text \<open>
  C10. The module defines every entry without raising, and the table it leaves has the
  following structure: the entry \<open>latin\<close> is the concatenation of the entries
  \<open>digits\<close>, \<open>ascii_letters\<close> and \<open>punctuation\<close>; \<open>latin\<close> is a prefix of
  \<open>english\<close>; and \<open>english\<close> is a prefix of each of \<open>french\<close>, \<open>portuguese\<close>,
  \<open>spanish\<close> and \<open>german\<close>, so that every character of the English vocabulary is a
  character of each of these four vocabularies.
\<close>

theorem vocabs_prefix_containment:
  "\<exists>V digits letters punctuation latin english french portuguese spanish german.
     VOCABS = Some V \<and>
     V ''digits'' = Some digits \<and>
     V ''ascii_letters'' = Some letters \<and>
     V ''punctuation'' = Some punctuation \<and>
     V ''latin'' = Some latin \<and>
     V ''english'' = Some english \<and>
     V ''french'' = Some french \<and>
     V ''portuguese'' = Some portuguese \<and>
     V ''spanish'' = Some spanish \<and>
     V ''german'' = Some german \<and>
     latin = digits @ letters @ punctuation \<and>
     prefix latin english \<and>
     prefix english french \<and> prefix english portuguese \<and>
     prefix english spanish \<and> prefix english german \<and>
     set english \<subseteq> set french \<and> set english \<subseteq> set portuguese \<and>
     set english \<subseteq> set spanish \<and> set english \<subseteq> set german"
proof -
  from VOCABS_lookups obtain V where V:
    "VOCABS = Some V"
    "V ''digits'' = Some string_digits"
    "V ''ascii_letters'' = Some string_ascii_letters"
    "V ''punctuation'' = Some string_punctuation"
    "V ''latin'' = Some (string_digits @ string_ascii_letters @ string_punctuation)"
    "V ''english'' = Some ((string_digits @ string_ascii_letters @ string_punctuation) @
        [176] @ [163, 8364, 165, 162, 3647])"
    "V ''french'' = Some (((string_digits @ string_ascii_letters @ string_punctuation) @
        [176] @ [163, 8364, 165, 162, 3647]) @
        [224, 226, 233, 232, 234, 235, 238, 239, 244, 249, 251, 252, 231, 192, 194, 201, 200,
         202, 203, 206, 207, 212, 217, 219, 220, 199])"
    "V ''portuguese'' = Some (((string_digits @ string_ascii_letters @ string_punctuation) @
        [176] @ [163, 8364, 165, 162, 3647]) @
        [225, 224, 226, 227, 233, 234, 235, 237, 239, 243, 244, 245, 250, 252, 231, 193, 192,
         194, 195, 201, 203, 205, 207, 211, 212, 213, 218, 220, 199] @ [161, 191])"
    "V ''spanish'' = Some (((string_digits @ string_ascii_letters @ string_punctuation) @
        [176] @ [163, 8364, 165, 162, 3647]) @
        [225, 233, 237, 243, 250, 252, 241, 193, 201, 205, 211, 218, 220, 209] @ [161, 191])"
    "V ''german'' = Some (((string_digits @ string_ascii_letters @ string_punctuation) @
        [176] @ [163, 8364, 165, 162, 3647]) @
        [228, 246, 252, 223, 196, 214, 220, 7838])"
    by blast
  have pre: "\<And>xs ys :: pystr. prefix xs (xs @ ys)" and sub: "\<And>xs ys :: pystr. set xs \<subseteq> set (xs @ ys)"
    by simp_all
  show ?thesis
    by (intro exI conjI) (rule V refl pre sub)+
qed

end
